theory Spec2Isabelle
  imports Complex_Main
begin

section \<open>Numbers and errors\<close>

text \<open>
  The recommender of \<^verbatim>\<open>zerodte_recommender.py\<close> computes with Python floats and
  NumPy float64 values. Finite values are modelled as reals (no rounding, no overflow, no
  signed zero); the non-finite results that NumPy returns instead of raising are kept as
  values of their own. Python's own division raises \<^verbatim>\<open>ZeroDivisionError\<close>.
\<close>

datatype error = ZeroDivisionError | IndexError

datatype npfloat = NaN | NegInf | Fin real | PosInf

text \<open>Python's \<^verbatim>\<open>a / b\<close> and \<^verbatim>\<open>a // b\<close> on Python numbers.\<close>

definition truediv :: "real \<Rightarrow> real \<Rightarrow> error + real" where
  "truediv a b = (if b = 0 then Inl ZeroDivisionError else Inr (a / b))"

definition floordiv :: "real \<Rightarrow> real \<Rightarrow> error + int" where
  "floordiv a b = (if b = 0 then Inl ZeroDivisionError else Inr \<lfloor>a / b\<rfloor>)"

text \<open>
  NumPy scalar operations: \<^verbatim>\<open>np.log\<close> gives \<^verbatim>\<open>-inf\<close> at zero and
  \<^verbatim>\<open>nan\<close> below it, and a float64 divided by a float64 zero gives an infinity or
  \<^verbatim>\<open>nan\<close>; both only warn.
\<close>

definition np_log :: "real \<Rightarrow> npfloat" where
  "np_log x = (if 0 < x then Fin (ln x) else if x = 0 then NegInf else NaN)"

fun np_add :: "npfloat \<Rightarrow> real \<Rightarrow> npfloat" where
  "np_add (Fin x) y = Fin (x + y)"
| "np_add a y = a"

fun np_neg :: "npfloat \<Rightarrow> npfloat" where
  "np_neg (Fin x) = Fin (- x)"
| "np_neg NegInf = PosInf"
| "np_neg PosInf = NegInf"
| "np_neg NaN = NaN"

fun np_div :: "npfloat \<Rightarrow> real \<Rightarrow> npfloat" where
  "np_div (Fin x) d =
     (if d = 0 then (if 0 < x then PosInf else if x < 0 then NegInf else NaN)
      else Fin (x / d))"
| "np_div PosInf d = (if d < 0 then NegInf else PosInf)"
| "np_div NegInf d = (if d < 0 then PosInf else NegInf)"
| "np_div NaN d = NaN"

text \<open>Comparison of a float64 with a finite constant: every comparison with \<^verbatim>\<open>nan\<close> is false.\<close>

fun np_gt :: "npfloat \<Rightarrow> real \<Rightarrow> bool" where
  "np_gt (Fin x) c = (c < x)"
| "np_gt PosInf c = True"
| "np_gt NegInf c = False"
| "np_gt NaN c = False"

fun np_lt :: "npfloat \<Rightarrow> real \<Rightarrow> bool" where
  "np_lt (Fin x) c = (x < c)"
| "np_lt PosInf c = False"
| "np_lt NegInf c = True"
| "np_lt NaN c = False"

fun np_sub :: "npfloat \<Rightarrow> npfloat \<Rightarrow> npfloat" where
  "np_sub (Fin x) (Fin y) = Fin (x - y)"
| "np_sub NaN b = NaN"
| "np_sub a NaN = NaN"
| "np_sub PosInf PosInf = NaN"
| "np_sub NegInf NegInf = NaN"
| "np_sub PosInf b = PosInf"
| "np_sub NegInf b = NegInf"
| "np_sub (Fin x) PosInf = NegInf"
| "np_sub (Fin x) NegInf = PosInf"

text \<open>
  \<^verbatim>\<open>scipy.stats.norm.cdf\<close> is library code outside the repository. Its value on
  finite arguments is the parameter \<open>Phi\<close> of every function that reaches it; at the
  infinities it is 0 and 1, and \<^verbatim>\<open>nan\<close> is passed through.
\<close>

fun norm_cdf :: "(real \<Rightarrow> real) \<Rightarrow> npfloat \<Rightarrow> npfloat" where
  "norm_cdf Phi (Fin x) = Fin (Phi x)"
| "norm_cdf Phi NegInf = Fin 0"
| "norm_cdf Phi PosInf = Fin 1"
| "norm_cdf Phi NaN = NaN"

section \<open>The recommender's configuration\<close>

text \<open>The attributes set by \<^verbatim>\<open>ZeroDTERecommender.__init__\<close>.\<close>

definition min_strike_distance :: real where
  "min_strike_distance = 15 / 10000"

definition strike_gap :: int where
  "strike_gap = 5"

definition max_strike_width :: int where
  "max_strike_width = 5"

definition ema_window :: nat where
  "ema_window = 5"

definition ema_trend_window :: nat where
  "ema_trend_window = 260"

section \<open>Trend scoring\<close>

text \<open>
  The scorer reads the outside world through \<^verbatim>\<open>yfinance\<close>: the closing prices of
  SPY over the last 300 days and the closing values of the VIX for the day. A download is
  \<open>None\<close> when it raises and the empty list when the returned frame is empty.
\<close>

record provider =
  spy_download :: "real list option"
  vix_download :: "real list option"

text \<open>
  \<^verbatim>\<open>get_spx_historical_data()\<close>: \<open>None\<close> on an exception or an empty frame,
  otherwise the closing prices times 10.
\<close>

definition get_spx_historical_data :: "provider \<Rightarrow> real list option" where
  "get_spx_historical_data env =
     (case spy_download env of
        None \<Rightarrow> None
      | Some closes \<Rightarrow> if closes = [] then None else Some (map (\<lambda>c. c * 10) closes))"

text \<open>
  The pandas operations of the score. \<^verbatim>\<open>rolling(min_periods=1, window=w).mean()\<close>
  averages the at most \<open>w\<close> values that end at each position.
  \<^verbatim>\<open>diff(1)\<close> starts with \<^verbatim>\<open>nan\<close>. \<^verbatim>\<open>rolling(window=w).sum()\<close> has
  \<open>min_periods = w\<close> and skips \<^verbatim>\<open>nan\<close>, so it is \<^verbatim>\<open>nan\<close> unless the
  window holds \<open>w\<close> values; an infinite entry is treated like \<^verbatim>\<open>nan\<close> here.
  \<^verbatim>\<open>iloc[-1]\<close> raises on an empty series.
\<close>

definition rolling_mean :: "nat \<Rightarrow> real list \<Rightarrow> real list" where
  "rolling_mean w xs =
     map (\<lambda>i. let window = drop (Suc i - w) (take (Suc i) xs)
              in sum_list window / of_nat (length window)) [0..<length xs]"

definition diff1 :: "npfloat list \<Rightarrow> npfloat list" where
  "diff1 ys = map (\<lambda>i. if i = 0 then NaN else np_sub (ys ! i) (ys ! (i - 1))) [0..<length ys]"

fun window_sum :: "npfloat list \<Rightarrow> npfloat" where
  "window_sum [] = Fin 0"
| "window_sum (Fin x # zs) = (case window_sum zs of Fin s \<Rightarrow> Fin (x + s) | _ \<Rightarrow> NaN)"
| "window_sum (z # zs) = NaN"

definition rolling_sum :: "nat \<Rightarrow> npfloat list \<Rightarrow> npfloat list" where
  "rolling_sum w ys =
     map (\<lambda>i. if Suc i < w then NaN else window_sum (drop (Suc i - w) (take (Suc i) ys)))
       [0..<length ys]"

definition iloc_last :: "'a list \<Rightarrow> error + 'a" where
  "iloc_last ys = (if ys = [] then Inl IndexError else Inr (last ys))"

record trend_result =
  raw_score :: npfloat
  should_trade_long :: bool
  should_trade_short :: bool
  vix_level :: real
  interpretation_label :: string

definition default_result :: "string \<Rightarrow> trend_result" where
  "default_result msg = \<lparr>raw_score = Fin 0, should_trade_long = False, should_trade_short = False,
                    vix_level = 18, interpretation_label = msg\<rparr>"

text \<open>
  \<^verbatim>\<open>calculate_trend_score(current_spx_price)\<close>. The argument is never read. An
  exception inside the body is caught and answered with the second default result. The key
  \<^verbatim>\<open>'interpretation'\<close> of the returned dictionary is the field
  \<open>interpretation_label\<close>, since the key itself is an Isabelle keyword.
\<close>

definition calculate_trend_score :: "provider \<Rightarrow> real \<Rightarrow> trend_result" where
  "calculate_trend_score env current_spx_price =
     (case get_spx_historical_data env of
        None \<Rightarrow> default_result ''No trend data available''
      | Some hist_data \<Rightarrow>
          if length hist_data < ema_trend_window then default_result ''No trend data available''
          else
            (let hist = (if length hist_data > ema_trend_window
                         then drop (length hist_data - ema_trend_window) hist_data
                         else hist_data);
                 ema_close = rolling_mean ema_window hist;
                 log_ema = map np_log ema_close;
                 diff_log = diff1 log_ema
             in case iloc_last (rolling_sum ema_window diff_log) of
                  Inl e \<Rightarrow> default_result ''Error calculating trend''
                | Inr trend_score \<Rightarrow>
                    \<lparr>raw_score = trend_score,
                     should_trade_long = np_gt trend_score 0,
                     should_trade_short = np_lt trend_score 0,
                     vix_level = (case vix_download env of
                                    None \<Rightarrow> 18
                                  | Some v \<Rightarrow> if v = [] then 18 else last v),
                     interpretation_label =
                       (if np_gt trend_score 0.02 then ''Strongly Bullish''
                        else if np_gt trend_score 0 then ''Weakly Bullish''
                        else if np_gt trend_score (- 0.02) then ''Weakly Bearish''
                        else ''Strongly Bearish'')\<rparr>))"

text \<open>
  The same two methods with their effects. Besides the answers of the provider, the world
  holds the text of the exception that the SPY download raises, if it raises, and the lines
  written to the standard output so far. \<^verbatim>\<open>print\<close> appends a line. The clock is read
  only to form the request, so the answers stand for what the provider returns to the
  request of this moment. Line 29 rescales the frame that the download has just returned;
  the call holds the only reference to it, and the world keeps no trace of the update. The
  handler around the VIX download prints nothing.
\<close>

record world =
  answers :: provider
  spy_error :: string
  stdout :: "string list"

definition print_line :: "string \<Rightarrow> world \<Rightarrow> world" where
  "print_line s w = w\<lparr>stdout := stdout w @ [s]\<rparr>"

definition error_text :: "error \<Rightarrow> string" where
  "error_text e = (case e of
                     ZeroDivisionError \<Rightarrow> ''float division by zero''
                   | IndexError \<Rightarrow> ''single positional indexer is out-of-bounds'')"

definition get_spx_historical_data_io :: "world \<Rightarrow> real list option \<times> world" where
  "get_spx_historical_data_io w =
     (case spy_download (answers w) of
        None \<Rightarrow> (None, print_line (''Error fetching historical data: '' @ spy_error w) w)
      | Some closes \<Rightarrow>
          if closes = [] then (None, w) else (Some (map (\<lambda>c. c * 10) closes), w))"

definition calculate_trend_score_io :: "world \<Rightarrow> real \<Rightarrow> trend_result \<times> world" where
  "calculate_trend_score_io w current_spx_price =
     (case get_spx_historical_data_io w of
        (None, w1) \<Rightarrow> (default_result ''No trend data available'', w1)
      | (Some hist_data, w1) \<Rightarrow>
          if length hist_data < ema_trend_window
          then (default_result ''No trend data available'', w1)
          else
            (let hist = (if length hist_data > ema_trend_window
                         then drop (length hist_data - ema_trend_window) hist_data
                         else hist_data);
                 ema_close = rolling_mean ema_window hist;
                 log_ema = map np_log ema_close;
                 diff_log = diff1 log_ema
             in case iloc_last (rolling_sum ema_window diff_log) of
                  Inl e \<Rightarrow>
                    (default_result ''Error calculating trend'',
                     print_line (''Error calculating trend: '' @ error_text e) w1)
                | Inr trend_score \<Rightarrow>
                    (\<lparr>raw_score = trend_score,
                      should_trade_long = np_gt trend_score 0,
                      should_trade_short = np_lt trend_score 0,
                      vix_level = (case vix_download (answers w1) of
                                     None \<Rightarrow> 18
                                   | Some v \<Rightarrow> if v = [] then 18 else last v),
                      interpretation_label =
                        (if np_gt trend_score 0.02 then ''Strongly Bullish''
                         else if np_gt trend_score 0 then ''Weakly Bullish''
                         else if np_gt trend_score (- 0.02) then ''Weakly Bearish''
                         else ''Strongly Bearish'')\<rparr>, w1)))"

section \<open>Delta approximation\<close>

text \<open>
  \<^verbatim>\<open>calculate_black_scholes_delta(S, K, T, r, sigma, option_type)\<close>. The quotient
  \<^verbatim>\<open>S / K\<close> is a division of Python numbers and raises at \<open>K = 0\<close>; everything
  after \<^verbatim>\<open>np.log\<close> is float64 arithmetic. Any option type other than
  \<^verbatim>\<open>'call'\<close> takes the put branch.
\<close>

definition calculate_black_scholes_delta ::
  "(real \<Rightarrow> real) \<Rightarrow> real \<Rightarrow> real \<Rightarrow> real \<Rightarrow> real \<Rightarrow> real \<Rightarrow> string \<Rightarrow> error + npfloat" where
  "calculate_black_scholes_delta Phi S K T r sigma option_type =
     (if T \<le> 0 then Inr (Fin (if S > K then 1 else 0))
      else
        (case truediv S K of
           Inl e \<Rightarrow> Inl e
         | Inr q \<Rightarrow>
             (let d1 = np_div (np_add (np_log q) ((r + 0.5 * sigma\<^sup>2) * T)) (sigma * sqrt T)
              in if option_type = ''call'' then Inr (norm_cdf Phi d1)
                 else Inr (np_neg (norm_cdf Phi (np_neg d1))))))"

section \<open>Strike selection\<close>

record strike_rec =
  short_strike :: int
  long_strike :: int
  short_delta :: npfloat
  long_delta :: npfloat
  distance_from_atm :: real
  strike_width :: int

text \<open>
  \<^verbatim>\<open>get_strike_recommendations(spx_price, option_type)\<close>. \<^verbatim>\<open>math.floor\<close> and
  \<^verbatim>\<open>math.ceil\<close> return Python integers, so the strikes are integers. The divisor
  \<^verbatim>\<open>self.strike_gap\<close> is the constant 5. Any option type other than
  \<^verbatim>\<open>'put'\<close> takes the call branch.
\<close>

definition get_strike_recommendations ::
  "(real \<Rightarrow> real) \<Rightarrow> real \<Rightarrow> string \<Rightarrow> error + strike_rec" where
  "get_strike_recommendations Phi spx_price option_type =
     (let (short, long, distance) =
            (if option_type = ''put'' then
               (let strike_distance = spx_price * min_strike_distance;
                    target_strike = spx_price - strike_distance;
                    short = \<lfloor>target_strike / of_int strike_gap\<rfloor> * strike_gap;
                    long = short - strike_gap
                in (short, long, spx_price - of_int short))
             else
               (let strike_distance = spx_price * min_strike_distance;
                    target_strike = spx_price + strike_distance;
                    short = \<lceil>target_strike / of_int strike_gap\<rceil> * strike_gap;
                    long = short + strike_gap
                in (short, long, of_int short - spx_price)));
          T = 1 / 365;
          r = 0.05;
          sigma = 0.20;
          kind = (if option_type = ''put'' then ''put'' else ''call'')
      in
        (case calculate_black_scholes_delta Phi spx_price (of_int short) T r sigma kind of
           Inl e \<Rightarrow> Inl e
         | Inr sd \<Rightarrow>
             (case calculate_black_scholes_delta Phi spx_price (of_int long) T r sigma kind of
                Inl e \<Rightarrow> Inl e
              | Inr ld \<Rightarrow>
                  Inr \<lparr>short_strike = short, long_strike = long,
                       short_delta = sd, long_delta = ld,
                       distance_from_atm = distance,
                       strike_width = \<bar>short - long\<bar>\<rparr>)))"

section \<open>Spread sizing\<close>

record metrics =
  estimated_credit :: real
  max_loss_per_spread :: real
  contracts_needed :: int
  total_credit :: real
  total_margin :: real

text \<open>
  \<^verbatim>\<open>calculate_spread_metrics(short_strike, long_strike, target_credit, max_margin)\<close>.
  The returned dictionary has exactly the five keys of \<^typ>\<open>metrics\<close>.
\<close>

definition calculate_spread_metrics :: "real \<Rightarrow> real \<Rightarrow> real \<Rightarrow> real \<Rightarrow> error + metrics" where
  "calculate_spread_metrics short long target_credit max_margin =
     (let width = \<bar>short - long\<bar>;
          estimated_credit_per_spread = width * 30;
          max_loss = width * 100 - estimated_credit_per_spread;
          result = (\<lambda>n. \<lparr>estimated_credit = estimated_credit_per_spread,
                          max_loss_per_spread = max_loss,
                          contracts_needed = n,
                          total_credit = estimated_credit_per_spread * of_int n,
                          total_margin = max_loss * of_int n\<rparr>)
      in
        (case truediv target_credit estimated_credit_per_spread of
           Inl e \<Rightarrow> Inl e
         | Inr q \<Rightarrow>
             (let n = \<lceil>q\<rceil>;
                  total_margin_needed = of_int n * max_loss
              in if total_margin_needed > max_margin then
                   (case floordiv max_margin max_loss of
                      Inl e \<Rightarrow> Inl e
                    | Inr m \<Rightarrow> Inr (result (max 1 m)))
                 else Inr (result n))))"

section \<open>The complete recommendation\<close>

text \<open>
  \<^verbatim>\<open>get_trade_recommendations(spx_price, target_credit, max_margin)\<close>. The merged
  dictionaries \<^verbatim>\<open>{**rec, **metrics}\<close> have disjoint keys and are modelled as the
  pair of both records. The three top-level keys \<^verbatim>\<open>contracts_needed\<close>,
  \<^verbatim>\<open>estimated_credit\<close> and \<^verbatim>\<open>max_loss_per_spread\<close> are the fields with
  the prefix \<open>rec_\<close>.
\<close>

record recommendation =
  bull_put_spread :: "strike_rec \<times> metrics"
  bear_call_spread :: "strike_rec \<times> metrics"
  rec_contracts_needed :: int
  rec_estimated_credit :: real
  rec_max_loss_per_spread :: real

definition get_trade_recommendations ::
  "(real \<Rightarrow> real) \<Rightarrow> real \<Rightarrow> real \<Rightarrow> real \<Rightarrow> error + recommendation" where
  "get_trade_recommendations Phi spx_price target_credit max_margin =
     (case get_strike_recommendations Phi spx_price ''put'' of
        Inl e \<Rightarrow> Inl e
      | Inr bull_put_rec \<Rightarrow>
     (case get_strike_recommendations Phi spx_price ''call'' of
        Inl e \<Rightarrow> Inl e
      | Inr bear_call_rec \<Rightarrow>
     (case calculate_spread_metrics (of_int (short_strike bull_put_rec))
             (of_int (long_strike bull_put_rec)) target_credit max_margin of
        Inl e \<Rightarrow> Inl e
      | Inr bull_put_metrics \<Rightarrow>
     (case calculate_spread_metrics (of_int (short_strike bear_call_rec))
             (of_int (long_strike bear_call_rec)) target_credit max_margin of
        Inl e \<Rightarrow> Inl e
      | Inr bear_call_metrics \<Rightarrow>
          Inr \<lparr>bull_put_spread = (bull_put_rec, bull_put_metrics),
               bear_call_spread = (bear_call_rec, bear_call_metrics),
               rec_contracts_needed = contracts_needed bull_put_metrics,
               rec_estimated_credit = estimated_credit bull_put_metrics,
               rec_max_loss_per_spread = max_loss_per_spread bull_put_metrics\<rparr>))))"

section \<open>Properties of the spread sizer\<close>

text \<open>
  With distinct strikes neither division of \<^const>\<open>calculate_spread_metrics\<close> can fail,
  and the result is determined by the width alone.
\<close>

lemma spread_metrics_unfold:
  assumes "short \<noteq> long"
  shows "calculate_spread_metrics short long tc mm =
     (let w = \<bar>short - long\<bar>; n = \<lceil>tc / (w * 30)\<rceil>;
          k = (if of_int n * (w * 70) > mm then max 1 \<lfloor>mm / (w * 70)\<rfloor> else n)
      in Inr \<lparr>estimated_credit = w * 30, max_loss_per_spread = w * 70,
              contracts_needed = k, total_credit = w * 30 * of_int k,
              total_margin = w * 70 * of_int k\<rparr>)"
  using assms
  by (simp add: calculate_spread_metrics_def truediv_def floordiv_def Let_def mult.commute)

lemma initial_contracts_pos:
  fixes tc w :: real
  assumes "0 < w" "0 < tc"
  shows "1 \<le> \<lceil>tc / (w * 30)\<rceil>"
proof -
  have "0 < tc / (w * 30)" using assms by simp
  then have "0 < \<lceil>tc / (w * 30)\<rceil>" by (simp add: ceiling_less_iff)
  then show ?thesis by simp
qed

lemma floor_fits:
  fixes mm l :: real
  assumes "0 < l"
  shows "l * of_int \<lfloor>mm / l\<rfloor> \<le> mm"
proof -
  have "of_int \<lfloor>mm / l\<rfloor> \<le> mm / l" by (rule of_int_floor_le)
  then have "l * of_int \<lfloor>mm / l\<rfloor> \<le> l * (mm / l)"
    using assms by (simp only: mult_le_cancel_left_pos)
  then show ?thesis using assms by simp
qed

lemma floor_ge_one:
  fixes mm l :: real
  assumes "0 < l" "l \<le> mm"
  shows "1 \<le> \<lfloor>mm / l\<rfloor>"
proof -
  have "1 \<le> mm / l" using assms by (simp add: le_divide_eq)
  then show ?thesis by (simp add: le_floor_iff)
qed

lemma floor_zero:
  fixes mm l :: real
  assumes "0 < mm" "mm < l"
  shows "\<lfloor>mm / l\<rfloor> = 0"
proof -
  have "0 \<le> mm / l" "mm / l < 1" using assms by simp_all
  then show ?thesis by (simp add: floor_eq_iff)
qed

text \<open>
  C3: for a strike pair of positive width, a positive target credit and a positive margin
  cap, the credit per contract is width times 30, the maximal loss per contract is width
  times 100 minus that credit, the contract count is the ceiling of target credit over
  credit per contract (which is at least 1), replaced by the floor of margin cap over loss
  per contract, clamped to at least 1, when the margin of the first count exceeds the cap.
  A target of 2500 at width 5 under a cap of 5000 gives 150, 350, a first count of 17 and
  a final count of 14.
\<close>

theorem sizing_formula:
  "(\<forall>short long tc mm. 0 < \<bar>short - long\<bar> \<and> 0 < tc \<and> 0 < mm \<longrightarrow>
      (\<exists>m. calculate_spread_metrics short long tc mm = Inr m \<and>
           estimated_credit m = \<bar>short - long\<bar> * 30 \<and>
           max_loss_per_spread m = \<bar>short - long\<bar> * 100 - estimated_credit m \<and>
           1 \<le> \<lceil>tc / estimated_credit m\<rceil> \<and>
           contracts_needed m =
             (if of_int \<lceil>tc / estimated_credit m\<rceil> * max_loss_per_spread m > mm
              then max 1 \<lfloor>mm / max_loss_per_spread m\<rfloor>
              else \<lceil>tc / estimated_credit m\<rceil>)))
   \<and> calculate_spread_metrics 5810 5805 2500 5000 =
       Inr \<lparr>estimated_credit = 150, max_loss_per_spread = 350, contracts_needed = 14,
            total_credit = 2100, total_margin = 4900\<rparr>
   \<and> \<lceil>2500 / (150::real)\<rceil> = 17
   \<and> \<lfloor>5000 / (350::real)\<rfloor> = 14"
proof (intro conjI allI impI)
  fix short long tc mm :: real
  assume h: "0 < \<bar>short - long\<bar> \<and> 0 < tc \<and> 0 < mm"
  then have ne: "short \<noteq> long" by auto
  from h have "1 \<le> \<lceil>tc / (\<bar>short - long\<bar> * 30)\<rceil>"
    by (simp add: initial_contracts_pos)
  then show "\<exists>m. calculate_spread_metrics short long tc mm = Inr m \<and>
           estimated_credit m = \<bar>short - long\<bar> * 30 \<and>
           max_loss_per_spread m = \<bar>short - long\<bar> * 100 - estimated_credit m \<and>
           1 \<le> \<lceil>tc / estimated_credit m\<rceil> \<and>
           contracts_needed m =
             (if of_int \<lceil>tc / estimated_credit m\<rceil> * max_loss_per_spread m > mm
              then max 1 \<lfloor>mm / max_loss_per_spread m\<rfloor>
              else \<lceil>tc / estimated_credit m\<rceil>)"
    by (simp add: spread_metrics_unfold [OF ne] Let_def)
next
  show "calculate_spread_metrics 5810 5805 2500 5000 =
       Inr \<lparr>estimated_credit = 150, max_loss_per_spread = 350, contracts_needed = 14,
            total_credit = 2100, total_margin = 4900\<rparr>"
    by (simp add: spread_metrics_unfold Let_def)
next
  show "\<lceil>2500 / (150::real)\<rceil> = 17" by (simp add: ceiling_eq_iff)
next
  show "\<lfloor>5000 / (350::real)\<rfloor> = 14" by (simp add: floor_eq_iff)
qed

theorem sizing_formula_witness:
  "0 < \<bar>5810 - 5805 :: real\<bar> \<and> (0::real) < 100 \<and> (0::real) < 300 \<and>
   (\<exists>m. calculate_spread_metrics 5810 5805 100 300 = Inr m \<and>
        estimated_credit m = 150 \<and> max_loss_per_spread m = 350 \<and> contracts_needed m = 1)"
proof -
  have "0 < \<bar>5810 - 5805 :: real\<bar> \<and> (0::real) < 100 \<and> (0::real) < 300 \<longrightarrow>
      (\<exists>m. calculate_spread_metrics 5810 5805 100 300 = Inr m \<and>
           estimated_credit m = \<bar>5810 - 5805\<bar> * 30 \<and>
           max_loss_per_spread m = \<bar>5810 - 5805\<bar> * 100 - estimated_credit m \<and>
           1 \<le> \<lceil>100 / estimated_credit m\<rceil> \<and>
           contracts_needed m =
             (if of_int \<lceil>100 / estimated_credit m\<rceil> * max_loss_per_spread m > 300
              then max 1 \<lfloor>300 / max_loss_per_spread m\<rfloor>
              else \<lceil>100 / estimated_credit m\<rceil>))"
    using sizing_formula by blast
  then obtain m where m: "calculate_spread_metrics 5810 5805 100 300 = Inr m"
    "estimated_credit m = \<bar>5810 - 5805\<bar> * 30"
    "max_loss_per_spread m = \<bar>5810 - 5805\<bar> * 100 - estimated_credit m"
    "contracts_needed m =
             (if of_int \<lceil>100 / estimated_credit m\<rceil> * max_loss_per_spread m > 300
              then max 1 \<lfloor>300 / max_loss_per_spread m\<rfloor>
              else \<lceil>100 / estimated_credit m\<rceil>)"
    by auto
  have c: "\<lceil>100 / (150::real)\<rceil> = 1" by (simp add: ceiling_eq_iff)
  have f: "\<lfloor>300 / (350::real)\<rfloor> = 0" by (simp add: floor_eq_iff)
  from m c f show ?thesis by simp
qed

text \<open>
  C4 (as amended): under the same conditions the contract count is at least 1 and the total
  margin is the count times the loss per contract; the total margin stays within the cap
  whenever one contract fits, and otherwise the count is 1 and the total margin exceeds the
  cap. The result has no field that records the overage.
\<close>

theorem margin_cap:
  assumes "0 < \<bar>short - long\<bar>" "0 < tc" "0 < mm"
  shows "\<exists>m. calculate_spread_metrics short long tc mm = Inr m \<and>
           1 \<le> contracts_needed m \<and>
           total_margin m = of_int (contracts_needed m) * max_loss_per_spread m \<and>
           (max_loss_per_spread m \<le> mm \<longrightarrow> total_margin m \<le> mm) \<and>
           (mm < max_loss_per_spread m \<longrightarrow> contracts_needed m = 1 \<and> mm < total_margin m)"
proof -
  define w where "w = \<bar>short - long\<bar>"
  define n where "n = \<lceil>tc / (w * 30)\<rceil>"
  define k where "k = (if of_int n * (w * 70) > mm then max 1 \<lfloor>mm / (w * 70)\<rfloor> else n)"
  have ne: "short \<noteq> long" using assms(1) by auto
  have wpos: "0 < w" using assms(1) by (simp add: w_def)
  have lpos: "0 < w * 70" using wpos by simp
  have n1: "1 \<le> n" unfolding n_def using wpos assms(2) by (rule initial_contracts_pos)
  have k1: "1 \<le> k" using n1 by (simp add: k_def)
  have fits: "w * 70 * of_int k \<le> mm" if le: "w * 70 \<le> mm"
  proof (cases "of_int n * (w * 70) > mm")
    case True
    have "1 \<le> \<lfloor>mm / (w * 70)\<rfloor>" using lpos le by (rule floor_ge_one)
    then have "k = \<lfloor>mm / (w * 70)\<rfloor>" using True by (simp add: k_def)
    then show ?thesis using floor_fits [OF lpos, of mm] by simp
  next
    case False
    then have "k = n" by (simp add: k_def)
    then show ?thesis using False by (simp add: mult.commute)
  qed
  have over: "k = 1 \<and> mm < w * 70 * of_int k" if lt: "mm < w * 70"
  proof -
    have "(1::real) \<le> of_int n" using n1 by simp
    then have "w * 70 * 1 \<le> w * 70 * of_int n"
      using lpos by (simp only: mult_le_cancel_left_pos)
    then have "w * 70 \<le> of_int n * (w * 70)" by (simp only: mult.commute [of "w * 70"] mult_1)
    then have big: "of_int n * (w * 70) > mm" using lt by (rule less_le_trans [rotated])
    have "\<lfloor>mm / (w * 70)\<rfloor> = 0" using assms(3) lt by (rule floor_zero)
    then have "k = 1" using big by (simp add: k_def)
    then show ?thesis using lt by simp
  qed
  have "calculate_spread_metrics short long tc mm =
     Inr \<lparr>estimated_credit = w * 30, max_loss_per_spread = w * 70,
              contracts_needed = k, total_credit = w * 30 * of_int k,
              total_margin = w * 70 * of_int k\<rparr>"
    by (simp add: spread_metrics_unfold [OF ne] Let_def w_def n_def k_def)
  then show ?thesis using k1 fits over by simp
qed

theorem margin_cap_witness:
  "0 < \<bar>5810 - 5805 :: real\<bar> \<and> (0::real) < 100 \<and> (0::real) < 300 \<and>
   (\<exists>m. calculate_spread_metrics 5810 5805 100 300 = Inr m \<and>
        contracts_needed m = 1 \<and> 300 < total_margin m)"
proof -
  have h: "0 < \<bar>5810 - 5805 :: real\<bar>" "(0::real) < 100" "(0::real) < 300" by simp_all
  have v: "calculate_spread_metrics 5810 5805 100 300 = Inr m \<Longrightarrow> max_loss_per_spread m = 350" for m
    by (auto simp add: spread_metrics_unfold Let_def)
  from margin_cap [OF h] v show ?thesis using h by force
qed

text \<open>
  The same result is returned under a cap of 300, which one contract exceeds, and under a
  cap of 1000, which it does not: nothing in the result tells the two apart.
\<close>

theorem overage_flag_counterexample:
  "calculate_spread_metrics 5810 5805 100 300 =
     Inr \<lparr>estimated_credit = 150, max_loss_per_spread = 350, contracts_needed = 1,
          total_credit = 150, total_margin = 350\<rparr> \<and>
   calculate_spread_metrics 5810 5805 100 1000 =
     Inr \<lparr>estimated_credit = 150, max_loss_per_spread = 350, contracts_needed = 1,
          total_credit = 150, total_margin = 350\<rparr> \<and>
   (300::real) < 350 \<and> (350::real) \<le> 1000"
proof -
  have c: "\<lceil>100 / (150::real)\<rceil> = 1" by (simp add: ceiling_eq_iff)
  have f: "\<lfloor>300 / (350::real)\<rfloor> = 0" by (simp add: floor_eq_iff)
  show ?thesis by (simp add: spread_metrics_unfold Let_def c f)
qed

section \<open>Properties of strike selection and of the pipeline\<close>

text \<open>
  The delta computation fails exactly through the quotient \<open>S / K\<close>: it returns for
  every non-zero strike and raises at strike zero when the time to expiry is positive.
\<close>

lemma delta_returns:
  assumes "K \<noteq> 0"
  shows "\<exists>d. calculate_black_scholes_delta Phi S K T r sigma kind = Inr d"
  using assms by (simp add: calculate_black_scholes_delta_def truediv_def Let_def)

lemma delta_raises:
  assumes "0 < T"
  shows "calculate_black_scholes_delta Phi S 0 T r sigma kind = Inl ZeroDivisionError"
  using assms by (simp add: calculate_black_scholes_delta_def truediv_def)

text \<open>Both sides return their grid strikes as soon as neither strike is zero.\<close>

lemma put_strikes_return:
  assumes "short = \<lfloor>(p - p * min_strike_distance) / of_int strike_gap\<rfloor> * strike_gap"
    and "short \<noteq> 0" and "short \<noteq> strike_gap"
  shows "\<exists>sd ld. get_strike_recommendations Phi p ''put'' =
           Inr \<lparr>short_strike = short, long_strike = short - strike_gap,
                short_delta = sd, long_delta = ld,
                distance_from_atm = p - of_int short, strike_width = strike_gap\<rparr>"
proof -
  have s: "real_of_int short \<noteq> 0" using assms(2) by simp
  have l: "real_of_int (short - strike_gap) \<noteq> 0" using assms(3) by simp
  obtain sd where sd: "calculate_black_scholes_delta Phi p (of_int short) (1 / 365) 0.05 0.20 ''put'' = Inr sd"
    using delta_returns [OF s] by blast
  obtain ld where ld: "calculate_black_scholes_delta Phi p (of_int (short - strike_gap)) (1 / 365) 0.05 0.20 ''put'' = Inr ld"
    using delta_returns [OF l] by blast
  have w: "\<bar>short - (short - strike_gap)\<bar> = strike_gap" by (simp add: strike_gap_def)
  show ?thesis
    unfolding get_strike_recommendations_def Let_def
    using sd ld w by (simp add: assms(1) [symmetric])
qed

lemma call_strikes_return:
  assumes "short = \<lceil>(p + p * min_strike_distance) / of_int strike_gap\<rceil> * strike_gap"
    and "short \<noteq> 0" and "short \<noteq> - strike_gap"
  shows "\<exists>sd ld. get_strike_recommendations Phi p ''call'' =
           Inr \<lparr>short_strike = short, long_strike = short + strike_gap,
                short_delta = sd, long_delta = ld,
                distance_from_atm = of_int short - p, strike_width = strike_gap\<rparr>"
proof -
  have s: "real_of_int short \<noteq> 0" using assms(2) by simp
  have "short + strike_gap \<noteq> 0" using assms(3) by simp
  then have l: "real_of_int (short + strike_gap) \<noteq> 0" by (simp only: of_int_eq_0_iff) simp
  obtain sd where sd: "calculate_black_scholes_delta Phi p (of_int short) (1 / 365) 0.05 0.20 ''call'' = Inr sd"
    using delta_returns [OF s] by blast
  obtain ld where ld: "calculate_black_scholes_delta Phi p (of_int (short + strike_gap)) (1 / 365) 0.05 0.20 ''call'' = Inr ld"
    using delta_returns [OF l] by blast
  have w: "\<bar>short - (short + strike_gap)\<bar> = strike_gap" by (simp add: strike_gap_def)
  show ?thesis
    unfolding get_strike_recommendations_def Let_def
    using sd ld w by (simp add: assms(1) [symmetric])
qed

lemma put_short_ge:
  assumes "10 \<le> p - p * min_strike_distance"
  shows "10 \<le> \<lfloor>(p - p * min_strike_distance) / of_int strike_gap\<rfloor> * strike_gap"
proof -
  have "2 \<le> (p - p * min_strike_distance) / of_int strike_gap"
    using assms by (simp add: strike_gap_def)
  then have "2 \<le> \<lfloor>(p - p * min_strike_distance) / of_int strike_gap\<rfloor>"
    by (simp add: le_floor_iff)
  then show ?thesis by (simp add: strike_gap_def)
qed

lemma call_short_ge:
  assumes "0 < p"
  shows "5 \<le> \<lceil>(p + p * min_strike_distance) / of_int strike_gap\<rceil> * strike_gap"
proof -
  have "0 < p * min_strike_distance" using assms by (simp add: min_strike_distance_def)
  then have "0 < (p + p * min_strike_distance) / of_int strike_gap"
    using assms by (simp add: strike_gap_def)
  then have "0 < \<lceil>(p + p * min_strike_distance) / of_int strike_gap\<rceil>"
    by (simp add: ceiling_less_iff)
  then show ?thesis by (simp add: strike_gap_def)
qed


text \<open>
  Below a target strike of 10 the put side has a short strike of 0, or a short strike of 5
  and a long strike of 0, and the quotient \<open>S / K\<close> of the delta raises.
\<close>

lemma put_strikes_raise:
  assumes "0 < p" "p - p * min_strike_distance < 10"
  shows "get_strike_recommendations Phi p ''put'' = Inl ZeroDivisionError"
proof -
  define q where "q = \<lfloor>(p - p * min_strike_distance) / of_int strike_gap\<rfloor>"
  have "0 < p - p * min_strike_distance"
    using assms(1) by (simp add: min_strike_distance_def)
  then have lo: "0 \<le> (p - p * min_strike_distance) / of_int strike_gap"
    by (simp add: strike_gap_def)
  have hi: "(p - p * min_strike_distance) / of_int strike_gap < 2"
    using assms(2) by (simp add: strike_gap_def)
  have "0 \<le> q" unfolding q_def using lo by (simp add: le_floor_iff)
  moreover have "q < 2" unfolding q_def using hi by (simp add: floor_less_iff)
  ultimately consider "q = 0" | "q = 1" by linarith
  then show ?thesis
  proof cases
    case 1
    then show ?thesis
      unfolding get_strike_recommendations_def Let_def q_def [symmetric]
      by (simp add: delta_raises)
  next
    case 2
    have five: "real_of_int 5 \<noteq> 0" by simp
    obtain sd where "calculate_black_scholes_delta Phi p (of_int 5) (1 / 365) 0.05 0.20 ''put'' = Inr sd"
      using delta_returns [OF five] by blast
    then show ?thesis
      unfolding get_strike_recommendations_def Let_def q_def [symmetric]
      using 2 by (simp add: delta_raises strike_gap_def)
  qed
qed

lemma spread_metrics_width:
  assumes "\<bar>s - l\<bar> = \<bar>s' - l'\<bar>"
  shows "calculate_spread_metrics s l tc mm = calculate_spread_metrics s' l' tc mm"
  using assms by (simp add: calculate_spread_metrics_def)

lemma spread_metrics_returns:
  assumes "s \<noteq> l"
  shows "\<exists>m. calculate_spread_metrics s l tc mm = Inr m"
  using assms by (simp add: spread_metrics_unfold Let_def)

lemma pipeline_raises:
  assumes "0 < p" "p - p * min_strike_distance < 10"
  shows "get_trade_recommendations Phi p tc mm = Inl ZeroDivisionError"
  by (simp add: get_trade_recommendations_def put_strikes_raise [OF assms])

lemma pipeline_returns:
  assumes "10 \<le> p - p * min_strike_distance"
  shows "\<exists>bp bc m. get_trade_recommendations Phi p tc mm =
           Inr \<lparr>bull_put_spread = (bp, m), bear_call_spread = (bc, m),
                rec_contracts_needed = contracts_needed m,
                rec_estimated_credit = estimated_credit m,
                rec_max_loss_per_spread = max_loss_per_spread m\<rparr>
         \<and> get_strike_recommendations Phi p ''put'' = Inr bp
         \<and> get_strike_recommendations Phi p ''call'' = Inr bc
         \<and> calculate_spread_metrics (of_int (short_strike bp)) (of_int (long_strike bp)) tc mm = Inr m
         \<and> strike_width bp = strike_gap \<and> strike_width bc = strike_gap"
proof -
  define sp where "sp = \<lfloor>(p - p * min_strike_distance) / of_int strike_gap\<rfloor> * strike_gap"
  define sc where "sc = \<lceil>(p + p * min_strike_distance) / of_int strike_gap\<rceil> * strike_gap"
  have "0 < p - p * min_strike_distance" using assms by simp
  then have "0 < p * (1 - min_strike_distance)" by (simp add: algebra_simps)
  then have ppos: "0 < p" by (simp add: min_strike_distance_def zero_less_mult_iff)
  have sp10: "10 \<le> sp" unfolding sp_def using assms by (rule put_short_ge)
  have sc5: "5 \<le> sc" unfolding sc_def using ppos by (rule call_short_ge)
  have sp0: "sp \<noteq> 0" "sp \<noteq> strike_gap" using sp10 by (simp_all add: strike_gap_def)
  have sc0: "sc \<noteq> 0" "sc \<noteq> - strike_gap" using sc5 by (simp_all add: strike_gap_def)
  obtain sd ld where bp: "get_strike_recommendations Phi p ''put'' =
           Inr \<lparr>short_strike = sp, long_strike = sp - strike_gap,
                short_delta = sd, long_delta = ld,
                distance_from_atm = p - of_int sp, strike_width = strike_gap\<rparr>"
    using put_strikes_return [OF sp_def sp0, of Phi] by blast
  obtain sd' ld' where bc: "get_strike_recommendations Phi p ''call'' =
           Inr \<lparr>short_strike = sc, long_strike = sc + strike_gap,
                short_delta = sd', long_delta = ld',
                distance_from_atm = of_int sc - p, strike_width = strike_gap\<rparr>"
    using call_strikes_return [OF sc_def sc0, of Phi] by blast
  have ne: "real_of_int sp \<noteq> real_of_int (sp - strike_gap)" by (simp add: strike_gap_def)
  obtain m where m: "calculate_spread_metrics (of_int sp) (of_int (sp - strike_gap)) tc mm = Inr m"
    using spread_metrics_returns [OF ne] by blast
  have "\<bar>real_of_int sc - real_of_int (sc + strike_gap)\<bar> = \<bar>real_of_int sp - real_of_int (sp - strike_gap)\<bar>"
    by (simp add: strike_gap_def)
  then have "calculate_spread_metrics (of_int sc) (of_int (sc + strike_gap)) tc mm =
      calculate_spread_metrics (of_int sp) (of_int (sp - strike_gap)) tc mm"
    by (rule spread_metrics_width)
  then have m': "calculate_spread_metrics (of_int sc) (of_int (sc + strike_gap)) tc mm = Inr m"
    using m by (rule trans)
  show ?thesis
    unfolding get_trade_recommendations_def using bp bc m m' by simp
qed

text \<open>
  C1: the pipeline is claimed to run to completion for every positive price, target credit
  and margin cap. At the price 3 the short put strike is 0 and the recommendation raises
  \<^verbatim>\<open>ZeroDivisionError\<close>.
\<close>

theorem pipeline_division_by_zero:
  "get_trade_recommendations Phi 3 2500 5000 = Inl ZeroDivisionError"
  by (rule pipeline_raises) (simp_all add: min_strike_distance_def)

text \<open>
  Where the put side returns, that is from a target strike of 10 on, its short strike is
  the largest multiple of the strike gap not above the target, it lies below the price, and
  the long strike is one gap lower.
\<close>

lemma put_strikes_on_grid:
  assumes "10 \<le> p - p * min_strike_distance"
  shows "\<exists>r. get_strike_recommendations Phi p ''put'' = Inr r
       \<and> strike_gap dvd short_strike r
       \<and> of_int (short_strike r) \<le> p * (1 - min_strike_distance)
       \<and> (\<forall>k. strike_gap dvd k \<and> of_int k \<le> p * (1 - min_strike_distance) \<longrightarrow> k \<le> short_strike r)
       \<and> long_strike r = short_strike r - strike_gap
       \<and> of_int (short_strike r) < p
       \<and> long_strike r < short_strike r
       \<and> strike_gap dvd long_strike r
       \<and> strike_width r = strike_gap
       \<and> distance_from_atm r = p - of_int (short_strike r)"
proof -
  define t where "t = p - p * min_strike_distance"
  define short where "short = \<lfloor>t / of_int strike_gap\<rfloor> * strike_gap"
  have t': "p * (1 - min_strike_distance) = t" by (simp add: t_def algebra_simps)
  have "0 < p * (1 - min_strike_distance)" using assms t' t_def by simp
  then have ppos: "0 < p" by (simp add: min_strike_distance_def zero_less_mult_iff)
  have tp: "t < p" using ppos by (simp add: t_def min_strike_distance_def)
  have s10: "10 \<le> short" unfolding short_def t_def using assms by (rule put_short_ge)
  have s0: "short \<noteq> 0" "short \<noteq> strike_gap" using s10 by (simp_all add: strike_gap_def)
  have sdef: "short = \<lfloor>(p - p * min_strike_distance) / of_int strike_gap\<rfloor> * strike_gap"
    by (simp add: short_def t_def)
  obtain sd ld where r: "get_strike_recommendations Phi p ''put'' =
           Inr \<lparr>short_strike = short, long_strike = short - strike_gap,
                short_delta = sd, long_delta = ld,
                distance_from_atm = p - of_int short, strike_width = strike_gap\<rparr>"
    using put_strikes_return [OF sdef s0, of Phi] by blast
  have "of_int \<lfloor>t / 5\<rfloor> \<le> t / 5" by (rule of_int_floor_le)
  then have le: "of_int short \<le> t" by (simp add: short_def strike_gap_def)
  have largest: "k \<le> short" if dv: "strike_gap dvd k" and kt: "of_int k \<le> t" for k
  proof -
    from dv obtain j where k: "k = 5 * j" by (auto simp add: strike_gap_def)
    have "of_int j \<le> t / 5" using kt k by simp
    then have "j \<le> \<lfloor>t / 5\<rfloor>" by (simp add: le_floor_iff)
    then show ?thesis by (simp add: k short_def strike_gap_def)
  qed
  have d1: "strike_gap dvd short" by (simp add: short_def)
  have d2: "strike_gap dvd short - strike_gap" using d1 by simp
  have lt: "of_int short < p" using le tp by simp
  show ?thesis
    unfolding r t' using d1 d2 le largest lt by (simp add: strike_gap_def)
qed

text \<open>
  C5: the put side is claimed to return its strikes for every positive price. At the price
  3 the strikes would be 0 and -5, and the call never returns them: the delta of the short
  strike raises \<^verbatim>\<open>ZeroDivisionError\<close>.
\<close>

theorem put_strikes_division_by_zero:
  "get_strike_recommendations Phi 3 ''put'' = Inl ZeroDivisionError"
  by (rule put_strikes_raise) (simp_all add: min_strike_distance_def)

text \<open>
  C10: for a positive price, target credit and margin cap, every recommendation that
  \<^const>\<open>get_trade_recommendations\<close> returns carries the same spread metrics on the
  bull-put and on the bear-call side, both widths being the strike gap, and its three
  top-level fields repeat the bull-put metrics; no trend enters the function. A
  recommendation is returned whenever the put target strike is at least 10; below that the
  call raises before any metrics are computed.
\<close>

theorem sides_share_metrics:
  assumes "0 < p" "0 < tc" "0 < mm"
  shows "(\<forall>r. get_trade_recommendations Phi p tc mm = Inr r \<longrightarrow>
            snd (bull_put_spread r) = snd (bear_call_spread r) \<and>
            strike_width (fst (bull_put_spread r)) = strike_gap \<and>
            strike_width (fst (bear_call_spread r)) = strike_gap \<and>
            rec_contracts_needed r = contracts_needed (snd (bull_put_spread r)) \<and>
            rec_estimated_credit r = estimated_credit (snd (bull_put_spread r)) \<and>
            rec_max_loss_per_spread r = max_loss_per_spread (snd (bull_put_spread r)))
       \<and> (10 \<le> p - p * min_strike_distance \<longrightarrow>
            (\<exists>r. get_trade_recommendations Phi p tc mm = Inr r))
       \<and> (p - p * min_strike_distance < 10 \<longrightarrow>
            get_trade_recommendations Phi p tc mm = Inl ZeroDivisionError)"
proof (cases "10 \<le> p - p * min_strike_distance")
  case True
  from pipeline_returns [OF True, of Phi tc mm] obtain bp bc m where
    r: "get_trade_recommendations Phi p tc mm =
           Inr \<lparr>bull_put_spread = (bp, m), bear_call_spread = (bc, m),
                rec_contracts_needed = contracts_needed m,
                rec_estimated_credit = estimated_credit m,
                rec_max_loss_per_spread = max_loss_per_spread m\<rparr>"
    and w: "strike_width bp = strike_gap" "strike_width bc = strike_gap"
    by blast
  show ?thesis using True r w by simp
next
  case False
  then have lt: "p - p * min_strike_distance < 10" by simp
  have "get_trade_recommendations Phi p tc mm = Inl ZeroDivisionError"
    using assms(1) lt by (rule pipeline_raises)
  then show ?thesis using lt by simp
qed

theorem sides_share_metrics_witness:
  "(0::real) < 5820 \<and> (0::real) < 2500 \<and> (0::real) < 5000 \<and>
   (\<exists>r. get_trade_recommendations (\<lambda>x. if x < 0 then 0 else 1) 5820 2500 5000 = Inr r \<and>
        snd (bull_put_spread r) = snd (bear_call_spread r) \<and>
        rec_contracts_needed r = contracts_needed (snd (bull_put_spread r)))"
proof -
  have h: "(0::real) < 5820" "(0::real) < 2500" "(0::real) < 5000" by simp_all
  have d: "(10::real) \<le> 5820 - 5820 * min_strike_distance"
    by (simp add: min_strike_distance_def)
  from sides_share_metrics [OF h, of "\<lambda>x. if x < 0 then 0 else 1"] d
  show ?thesis by auto
qed

text \<open>
  C9 (as amended): no entry point validates its input. For every target credit and margin
  cap, positive or not, \<^const>\<open>calculate_spread_metrics\<close> returns metrics for any two
  distinct strikes, and \<^const>\<open>get_trade_recommendations\<close> returns a recommendation
  whenever the put target strike is at least 10.
\<close>

theorem no_input_validation:
  "(\<forall>s l tc mm. s \<noteq> l \<longrightarrow> (\<exists>m. calculate_spread_metrics s l tc mm = Inr m)) \<and>
   (\<forall>Phi p tc mm. 10 \<le> p - p * min_strike_distance \<longrightarrow>
      (\<exists>r. get_trade_recommendations Phi p tc mm = Inr r))"
proof (intro conjI allI impI)
  fix s l tc mm :: real
  assume "s \<noteq> l"
  then show "\<exists>m. calculate_spread_metrics s l tc mm = Inr m"
    by (rule spread_metrics_returns)
next
  fix Phi :: "real \<Rightarrow> real" and p tc mm :: real
  assume "10 \<le> p - p * min_strike_distance"
  from pipeline_returns [OF this, of Phi tc mm]
  show "\<exists>r. get_trade_recommendations Phi p tc mm = Inr r" by blast
qed

theorem no_input_validation_witness:
  "(5810::real) \<noteq> 5805 \<and> (10::real) \<le> 5820 - 5820 * min_strike_distance \<and>
   (\<exists>m. calculate_spread_metrics 5810 5805 (- 100) 0 = Inr m) \<and>
   (\<exists>r. get_trade_recommendations (\<lambda>x. if x < 0 then 0 else 1) 5820 (- 100) 0 = Inr r)"
proof -
  have a: "(5810::real) \<noteq> 5805" by simp
  have b: "(10::real) \<le> 5820 - 5820 * min_strike_distance"
    by (simp add: min_strike_distance_def)
  from no_input_validation a b show ?thesis by blast
qed

text \<open>The grid strikes at the prices -100 and 5820.\<close>

lemma floor_m20: "\<lfloor>(- 100 - - 100 * min_strike_distance) / real_of_int strike_gap\<rfloor> * strike_gap = - 100"
proof -
  have "\<lfloor>(- 100 - - 100 * min_strike_distance) / real_of_int strike_gap\<rfloor> = - 20"
    by (simp add: min_strike_distance_def strike_gap_def floor_eq_iff)
  then show ?thesis by (simp add: strike_gap_def)
qed

lemma ceil_m20: "\<lceil>(- 100 + - 100 * min_strike_distance) / real_of_int strike_gap\<rceil> * strike_gap = - 100"
proof -
  have "\<lceil>(- 100 + - 100 * min_strike_distance) / real_of_int strike_gap\<rceil> = - 20"
    by (simp add: min_strike_distance_def strike_gap_def ceiling_eq_iff)
  then show ?thesis by (simp add: strike_gap_def)
qed

lemma negative_price_accepted:
  "\<not> isl (get_trade_recommendations Phi (- 100) 2500 5000)"
proof -
  have p0: "(- 100 :: int) \<noteq> 0" "(- 100 :: int) \<noteq> strike_gap" "(- 100 :: int) \<noteq> - strike_gap"
    by (simp_all add: strike_gap_def)
  obtain sd ld where bp: "get_strike_recommendations Phi (- 100) ''put'' =
           Inr \<lparr>short_strike = - 100, long_strike = - 100 - strike_gap,
                short_delta = sd, long_delta = ld,
                distance_from_atm = - 100 - of_int (- 100), strike_width = strike_gap\<rparr>"
    using put_strikes_return [OF floor_m20 [symmetric] p0(1) p0(2), of Phi] by blast
  obtain sd' ld' where bc: "get_strike_recommendations Phi (- 100) ''call'' =
           Inr \<lparr>short_strike = - 100, long_strike = - 100 + strike_gap,
                short_delta = sd', long_delta = ld',
                distance_from_atm = of_int (- 100) - - 100, strike_width = strike_gap\<rparr>"
    using call_strikes_return [OF ceil_m20 [symmetric] p0(1) p0(3), of Phi] by blast
  show ?thesis
    unfolding get_trade_recommendations_def using bp bc
    by (simp add: strike_gap_def spread_metrics_unfold Let_def)
qed

lemma floor_5820: "\<lfloor>(5820 - 5820 * min_strike_distance) / real_of_int strike_gap\<rfloor> * strike_gap = 5810"
proof -
  have "\<lfloor>(5820 - 5820 * min_strike_distance) / real_of_int strike_gap\<rfloor> = 1162"
    by (simp add: min_strike_distance_def strike_gap_def floor_eq_iff)
  then show ?thesis by (simp add: strike_gap_def)
qed

lemma ceil_5820: "\<lceil>(5820 + 5820 * min_strike_distance) / real_of_int strike_gap\<rceil> * strike_gap = 5830"
proof -
  have "\<lceil>(5820 + 5820 * min_strike_distance) / real_of_int strike_gap\<rceil> = 1166"
    by (simp add: min_strike_distance_def strike_gap_def ceiling_eq_iff)
  then show ?thesis by (simp add: strike_gap_def)
qed

lemma put_5820:
  "\<exists>sd ld. get_strike_recommendations Phi 5820 ''put'' =
           Inr \<lparr>short_strike = 5810, long_strike = 5805,
                short_delta = sd, long_delta = ld,
                distance_from_atm = 10, strike_width = 5\<rparr>"
proof -
  have p0: "(5810 :: int) \<noteq> 0" "(5810 :: int) \<noteq> strike_gap"
    by (simp_all add: strike_gap_def)
  from put_strikes_return [OF floor_5820 [symmetric] p0, of Phi]
  show ?thesis by (simp add: strike_gap_def)
qed

lemma call_5820:
  "\<exists>sd ld. get_strike_recommendations Phi 5820 ''call'' =
           Inr \<lparr>short_strike = 5830, long_strike = 5835,
                short_delta = sd, long_delta = ld,
                distance_from_atm = 10, strike_width = 5\<rparr>"
proof -
  have p0: "(5830 :: int) \<noteq> 0" "(5830 :: int) \<noteq> - strike_gap"
    by (simp_all add: strike_gap_def)
  from call_strikes_return [OF ceil_5820 [symmetric] p0, of Phi]
  show ?thesis by (simp add: strike_gap_def)
qed

text \<open>
  A target credit of -100 is answered with zero contracts, by the sizer and by the whole
  recommendation, and a price of -100 is answered with a recommendation as well.
\<close>

theorem validation_counterexample:
  "calculate_spread_metrics 5810 5805 (- 100) 5000 =
     Inr \<lparr>estimated_credit = 150, max_loss_per_spread = 350, contracts_needed = 0,
          total_credit = 0, total_margin = 0\<rparr> \<and>
   \<not> isl (get_trade_recommendations (\<lambda>x. if x < 0 then 0 else 1) 5820 (- 100) 5000) \<and>
   rec_contracts_needed
     (projr (get_trade_recommendations (\<lambda>x. if x < 0 then 0 else 1) 5820 (- 100) 5000)) = 0 \<and>
   \<not> isl (get_trade_recommendations (\<lambda>x. if x < 0 then 0 else 1) (- 100) 2500 5000)"
proof -
  have c: "\<lceil>- 100 / (150::real)\<rceil> = 0" by (simp add: ceiling_eq_iff)
  have m: "calculate_spread_metrics 5810 5805 (- 100) 5000 =
     Inr \<lparr>estimated_credit = 150, max_loss_per_spread = 350, contracts_needed = 0,
          total_credit = 0, total_margin = 0\<rparr>"
    using c by (simp add: spread_metrics_unfold Let_def)
  have m': "calculate_spread_metrics 5830 5835 (- 100) 5000 =
     Inr \<lparr>estimated_credit = 150, max_loss_per_spread = 350, contracts_needed = 0,
          total_credit = 0, total_margin = 0\<rparr>"
    using c by (simp add: spread_metrics_unfold Let_def)
  obtain sd ld where bp: "get_strike_recommendations (\<lambda>x. if x < 0 then 0 else 1) 5820 ''put'' =
           Inr \<lparr>short_strike = 5810, long_strike = 5805,
                short_delta = sd, long_delta = ld,
                distance_from_atm = 10, strike_width = 5\<rparr>"
    using put_5820 by blast
  obtain sd' ld' where bc: "get_strike_recommendations (\<lambda>x. if x < 0 then 0 else 1) 5820 ''call'' =
           Inr \<lparr>short_strike = 5830, long_strike = 5835,
                short_delta = sd', long_delta = ld',
                distance_from_atm = 10, strike_width = 5\<rparr>"
    using call_5820 by blast
  have r: "get_trade_recommendations (\<lambda>x. if x < 0 then 0 else 1) 5820 (- 100) 5000 =
      Inr \<lparr>bull_put_spread =
             (\<lparr>short_strike = 5810, long_strike = 5805, short_delta = sd, long_delta = ld,
               distance_from_atm = 10, strike_width = 5\<rparr>,
              \<lparr>estimated_credit = 150, max_loss_per_spread = 350, contracts_needed = 0,
               total_credit = 0, total_margin = 0\<rparr>),
           bear_call_spread =
             (\<lparr>short_strike = 5830, long_strike = 5835, short_delta = sd', long_delta = ld',
               distance_from_atm = 10, strike_width = 5\<rparr>,
              \<lparr>estimated_credit = 150, max_loss_per_spread = 350, contracts_needed = 0,
               total_credit = 0, total_margin = 0\<rparr>),
           rec_contracts_needed = 0, rec_estimated_credit = 150,
           rec_max_loss_per_spread = 350\<rparr>"
    unfolding get_trade_recommendations_def by (simp add: bp bc m m')
  show ?thesis using m r negative_price_accepted by simp
qed

section \<open>Properties of the delta approximation\<close>

text \<open>
  C2 (as amended): let the spot price and the volatility be positive and let the normal
  distribution function take its values between 0 and 1. When the time to expiry is not
  positive, the delta is the step function, 1 if the price exceeds the strike and 0
  otherwise, for every strike, and nothing is divided. When the time to expiry and the
  strike are positive, the put delta is minus the distribution function at minus d1 and
  lies between -1 and 0, and the call delta is the distribution function at d1 and lies
  between 0 and 1.
\<close>

theorem delta_range:
  assumes "0 < S" "0 < sigma" "\<forall>x. 0 \<le> Phi x \<and> Phi x \<le> 1"
  shows "(T \<le> 0 \<longrightarrow>
           calculate_black_scholes_delta Phi S K T r sigma kind =
             Inr (Fin (if S > K then 1 else 0)))
       \<and> (0 < T \<and> 0 < K \<longrightarrow>
           (let d1 = (ln (S / K) + (r + 0.5 * sigma\<^sup>2) * T) / (sigma * sqrt T)
            in calculate_black_scholes_delta Phi S K T r sigma ''put'' = Inr (Fin (- Phi (- d1)))
               \<and> - 1 \<le> - Phi (- d1) \<and> - Phi (- d1) \<le> 0
               \<and> calculate_black_scholes_delta Phi S K T r sigma ''call'' = Inr (Fin (Phi d1))
               \<and> 0 \<le> Phi d1 \<and> Phi d1 \<le> 1))"
proof (intro conjI impI)
  assume "T \<le> 0"
  then show "calculate_black_scholes_delta Phi S K T r sigma kind =
             Inr (Fin (if S > K then 1 else 0))"
    by (simp add: calculate_black_scholes_delta_def)
next
  assume h: "0 < T \<and> 0 < K"
  define d1 where "d1 = (ln (S / K) + (r + 0.5 * sigma\<^sup>2) * T) / (sigma * sqrt T)"
  have q: "0 < S / K" using assms(1) h by simp
  have den: "sigma * sqrt T \<noteq> 0" using assms(2) h by simp
  have "np_div (np_add (np_log (S / K)) ((r + 0.5 * sigma\<^sup>2) * T)) (sigma * sqrt T) = Fin d1"
    using q den by (simp add: np_log_def d1_def)
  then have put: "calculate_black_scholes_delta Phi S K T r sigma ''put'' = Inr (Fin (- Phi (- d1)))"
    and call: "calculate_black_scholes_delta Phi S K T r sigma ''call'' = Inr (Fin (Phi d1))"
    using h by (simp_all add: calculate_black_scholes_delta_def truediv_def Let_def)
  have "0 \<le> Phi (- d1)" "Phi (- d1) \<le> 1" "0 \<le> Phi d1" "Phi d1 \<le> 1"
    using assms(3) by simp_all
  then show "let d1 = (ln (S / K) + (r + 0.5 * sigma\<^sup>2) * T) / (sigma * sqrt T)
            in calculate_black_scholes_delta Phi S K T r sigma ''put'' = Inr (Fin (- Phi (- d1)))
               \<and> - 1 \<le> - Phi (- d1) \<and> - Phi (- d1) \<le> 0
               \<and> calculate_black_scholes_delta Phi S K T r sigma ''call'' = Inr (Fin (Phi d1))
               \<and> 0 \<le> Phi d1 \<and> Phi d1 \<le> 1"
    using put call unfolding Let_def d1_def [symmetric] by simp
qed

theorem delta_range_witness:
  "(0::real) < 5820 \<and> (0::real) < 0.20 \<and>
   (\<forall>x::real. (0::real) \<le> (if x < 0 then 0 else 1) \<and> (if x < 0 then 0 else 1) \<le> (1::real)) \<and>
   (0::real) \<le> 0 \<and>
   calculate_black_scholes_delta (\<lambda>x. if x < 0 then 0 else 1) 5820 5810 0 0.05 0.20 ''put'' =
     Inr (Fin 1) \<and>
   (0::real) < 1 / 365 \<and> (0::real) < 5810 \<and>
   (\<exists>d. calculate_black_scholes_delta (\<lambda>x. if x < 0 then 0 else 1) 5820 5810 (1 / 365) 0.05 0.20 ''put'' =
     Inr (Fin d) \<and> - 1 \<le> d \<and> d \<le> 0)"
proof -
  have h: "(0::real) < 5820" "(0::real) < 0.20"
    "\<forall>x::real. (0::real) \<le> (if x < 0 then 0 else 1) \<and> (if x < 0 then 0 else 1) \<le> (1::real)"
    by simp_all
  have a: "calculate_black_scholes_delta (\<lambda>x. if x < 0 then 0 else 1) 5820 5810 0 0.05 0.20 ''put'' =
     Inr (Fin 1)"
    using delta_range [OF h, where T = 0 and K = 5810 and r = "0.05" and kind = "''put''"] by simp
  have b: "\<exists>d. calculate_black_scholes_delta (\<lambda>x. if x < 0 then 0 else 1) 5820 5810 (1 / 365) 0.05 0.20 ''put'' =
     Inr (Fin d) \<and> - 1 \<le> d \<and> d \<le> 0"
    using delta_range [OF h, where T = "1 / 365" and K = 5810 and r = "0.05" and kind = "''put''"] unfolding Let_def by fastforce
  show ?thesis using h a b by simp
qed

text \<open>
  With a positive time to expiry the strike 0 raises \<^verbatim>\<open>ZeroDivisionError\<close>, and
  a negative strike gives \<^verbatim>\<open>nan\<close>, which lies in no interval.
\<close>

theorem delta_zero_strike_counterexample:
  "calculate_black_scholes_delta (\<lambda>x. if x < 0 then 0 else 1) 3 0 (1 / 365) 0.05 0.20 ''put'' =
     Inl ZeroDivisionError \<and>
   calculate_black_scholes_delta (\<lambda>x. if x < 0 then 0 else 1) 3 (- 5) (1 / 365) 0.05 0.20 ''put'' =
     Inr NaN"
  by (simp add: calculate_black_scholes_delta_def truediv_def np_log_def)

section \<open>Properties of the trend score\<close>

text \<open>
  A window of five values, and the entries of the intermediate series at the positions
  where five prices are available.
\<close>

lemma window5:
  assumes "k + 5 \<le> length ys"
  shows "drop k (take (k + 5) ys) = [ys ! k, ys ! (k + 1), ys ! (k + 2), ys ! (k + 3), ys ! (k + 4)]"
proof (rule nth_equalityI)
  show "length (drop k (take (k + 5) ys)) = length [ys ! k, ys ! (k + 1), ys ! (k + 2), ys ! (k + 3), ys ! (k + 4)]"
    using assms by simp
next
  fix i assume "i < length (drop k (take (k + 5) ys))"
  then have i: "i < 5" using assms by simp
  then consider "i = 0" | "i = 1" | "i = 2" | "i = 3" | "i = 4" by linarith
  then show "drop k (take (k + 5) ys) ! i = [ys ! k, ys ! (k + 1), ys ! (k + 2), ys ! (k + 3), ys ! (k + 4)] ! i"
    using assms by cases simp_all
qed

lemma rolling_mean_length: "length (rolling_mean w xs) = length xs"
  by (simp add: rolling_mean_def)

lemma diff1_length: "length (diff1 ys) = length ys"
  by (simp add: diff1_def)

lemma rolling_sum_length: "length (rolling_sum w ys) = length ys"
  by (simp add: rolling_sum_def)

lemma rolling_mean_nth:
  assumes "k + 5 \<le> length h"
  shows "rolling_mean 5 h ! (k + 4) = sum_list (drop k (take (k + 5) h)) / 5"
proof -
  have "k + 4 < length h" using assms by simp
  then have "rolling_mean 5 h ! (k + 4) =
      (let window = drop (Suc (k + 4) - 5) (take (Suc (k + 4)) h)
       in sum_list window / of_nat (length window))"
    by (simp add: rolling_mean_def)
  moreover have "Suc (k + 4) - 5 = k" "Suc (k + 4) = k + 5" by simp_all
  moreover have "length (drop k (take (k + 5) h)) = 5" using assms by simp
  ultimately show ?thesis by (simp add: Let_def)
qed

lemma window_positive:
  assumes "k + 5 \<le> length h" "\<forall>x\<in>set h. (0::real) < x"
  shows "0 < sum_list (drop k (take (k + 5) h)) / 5"
proof -
  have "\<And>i. i < length h \<Longrightarrow> 0 < h ! i" using assms(2) by simp
  then have "0 < h ! k" "0 < h ! (k + 1)" "0 < h ! (k + 2)" "0 < h ! (k + 3)" "0 < h ! (k + 4)"
    using assms(1) by simp_all
  then show ?thesis by (simp add: window5 [OF assms(1)])
qed

lemma log_mean_nth:
  assumes "k + 5 \<le> length h" "\<forall>x\<in>set h. (0::real) < x"
  shows "map np_log (rolling_mean 5 h) ! (k + 4) = Fin (ln (sum_list (drop k (take (k + 5) h)) / 5))"
proof -
  have "k + 4 < length (rolling_mean 5 h)" using assms(1) by (simp add: rolling_mean_length)
  then have "map np_log (rolling_mean 5 h) ! (k + 4) = np_log (rolling_mean 5 h ! (k + 4))"
    by (rule nth_map)
  also have "\<dots> = np_log (sum_list (drop k (take (k + 5) h)) / 5)"
    by (simp only: rolling_mean_nth [OF assms(1)])
  also have "\<dots> = Fin (ln (sum_list (drop k (take (k + 5) h)) / 5))"
    using window_positive [OF assms] by (simp add: np_log_def)
  finally show ?thesis .
qed

lemma diff1_nth:
  assumes "Suc j < length ys"
  shows "diff1 ys ! Suc j = np_sub (ys ! Suc j) (ys ! j)"
  using assms by (simp add: diff1_def)

lemma diff_log_nth:
  assumes "k + 6 \<le> length h" "\<forall>x\<in>set h. (0::real) < x"
  shows "diff1 (map np_log (rolling_mean 5 h)) ! (k + 5) =
     Fin (ln (sum_list (drop (k + 1) (take (k + 1 + 5) h)) / 5)
        - ln (sum_list (drop k (take (k + 5) h)) / 5))"
proof -
  let ?l = "map np_log (rolling_mean 5 h)"
  have len: "length ?l = length h" by (simp add: rolling_mean_length)
  have "Suc (k + 4) < length ?l" using assms(1) len by simp
  then have "diff1 ?l ! Suc (k + 4) = np_sub (?l ! Suc (k + 4)) (?l ! (k + 4))"
    by (rule diff1_nth)
  moreover have "Suc (k + 4) = k + 5" by simp
  ultimately have a: "diff1 ?l ! (k + 5) = np_sub (?l ! (k + 5)) (?l ! (k + 4))"
    by (simp only:)
  have "k + 1 + 5 \<le> length h" using assms(1) by simp
  then have "?l ! (k + 1 + 4) = Fin (ln (sum_list (drop (k + 1) (take (k + 1 + 5) h)) / 5))"
    using assms(2) by (rule log_mean_nth)
  moreover have "k + 1 + 4 = k + 5" by simp
  ultimately have b: "?l ! (k + 5) = Fin (ln (sum_list (drop (k + 1) (take (k + 1 + 5) h)) / 5))"
    by (simp only:)
  have "k + 5 \<le> length h" using assms(1) by simp
  then have c: "?l ! (k + 4) = Fin (ln (sum_list (drop k (take (k + 5) h)) / 5))"
    using assms(2) by (rule log_mean_nth)
  show ?thesis by (simp only: a b c np_sub.simps)
qed

text \<open>
  The last rolling sum adds the last five differences; on positive prices they are finite
  and telescope to the difference of two logarithms of window means.
\<close>

lemma rolling_sum_last:
  assumes "length ys = m + 5"
  shows "iloc_last (rolling_sum 5 ys) =
     Inr (window_sum [ys ! m, ys ! (m + 1), ys ! (m + 2), ys ! (m + 3), ys ! (m + 4)])"
proof -
  have ne: "rolling_sum 5 ys \<noteq> []" using assms by (simp add: rolling_sum_def)
  have "last (rolling_sum 5 ys) = rolling_sum 5 ys ! (m + 4)"
    using ne assms by (simp add: last_conv_nth rolling_sum_length add.commute)
  also have "\<dots> = window_sum (drop (Suc (m + 4) - 5) (take (Suc (m + 4)) ys))"
    using assms by (simp add: rolling_sum_def)
  also have "Suc (m + 4) - 5 = m" by simp
  also have "Suc (m + 4) = m + 5" by simp
  also have "drop m (take (m + 5) ys) = [ys ! m, ys ! (m + 1), ys ! (m + 2), ys ! (m + 3), ys ! (m + 4)]"
    using assms by (intro window5) simp
  finally show ?thesis using ne by (simp add: iloc_last_def)
qed

lemma score_value:
  assumes "length h = m + 10" "\<forall>x\<in>set h. (0::real) < x"
  shows "iloc_last (rolling_sum 5 (diff1 (map np_log (rolling_mean 5 h)))) =
     Inr (Fin (ln (sum_list (drop (m + 5) (take (m + 10) h)) / 5)
             - ln (sum_list (drop m (take (m + 5) h)) / 5)))"
proof -
  let ?d = "diff1 (map np_log (rolling_mean 5 h))"
  define e where "e k = ln (sum_list (drop k (take (k + 5) h)) / 5)" for k
  have len: "length ?d = (m + 5) + 5"
    using assms(1) by (simp add: diff1_length rolling_mean_length)
  have d: "?d ! (k + 5) = Fin (e (k + 1) - e k)" if "k + 6 \<le> length h" for k
    unfolding e_def using that assms(2) by (rule diff_log_nth)
  have idx: "m + 5 + 1 = m + 1 + 5" "m + 5 + 2 = m + 2 + 5" "m + 5 + 3 = m + 3 + 5"
    "m + 5 + 4 = m + 4 + 5" by simp_all
  have steps: "m + 1 + 1 = m + 2" "m + 2 + 1 = m + 3" "m + 3 + 1 = m + 4" "m + 4 + 1 = m + 5"
    by simp_all
  have d0: "?d ! (m + 5) = Fin (e (m + 1) - e m)"
    by (rule d) (simp add: assms(1))
  have "?d ! (m + 1 + 5) = Fin (e (m + 1 + 1) - e (m + 1))"
    by (rule d) (simp add: assms(1))
  then have d1: "?d ! (m + 5 + 1) = Fin (e (m + 2) - e (m + 1))"
    by (simp only: idx steps)
  have "?d ! (m + 2 + 5) = Fin (e (m + 2 + 1) - e (m + 2))"
    by (rule d) (simp add: assms(1))
  then have d2: "?d ! (m + 5 + 2) = Fin (e (m + 3) - e (m + 2))"
    by (simp only: idx steps)
  have "?d ! (m + 3 + 5) = Fin (e (m + 3 + 1) - e (m + 3))"
    by (rule d) (simp add: assms(1))
  then have d3: "?d ! (m + 5 + 3) = Fin (e (m + 4) - e (m + 3))"
    by (simp only: idx steps)
  have "?d ! (m + 4 + 5) = Fin (e (m + 4 + 1) - e (m + 4))"
    by (rule d) (simp add: assms(1))
  then have d4: "?d ! (m + 5 + 4) = Fin (e (m + 5) - e (m + 4))"
    by (simp only: idx steps)
  have "iloc_last (rolling_sum 5 ?d) =
     Inr (window_sum [?d ! (m + 5), ?d ! (m + 5 + 1), ?d ! (m + 5 + 2), ?d ! (m + 5 + 3), ?d ! (m + 5 + 4)])"
    using len by (rule rolling_sum_last)
  also have "\<dots> = Inr (window_sum [Fin (e (m + 1) - e m), Fin (e (m + 2) - e (m + 1)),
       Fin (e (m + 3) - e (m + 2)), Fin (e (m + 4) - e (m + 3)), Fin (e (m + 5) - e (m + 4))])"
    by (simp only: d0 d1 d2 d3 d4)
  also have "\<dots> = Inr (Fin (e (m + 5) - e m))"
    by simp
  finally have "iloc_last (rolling_sum 5 ?d) = Inr (Fin (e (m + 5) - e m))" .
  moreover have "m + 5 + 5 = m + 10" by simp
  ultimately show ?thesis by (simp only: e_def)
qed


text \<open>
  With at least 260 positive prices the scorer returns the computed result: the score is
  the logarithm of the mean of the last five prices minus the logarithm of the mean of the
  five prices before them.
\<close>

lemma trend_score_computed:
  assumes "get_spx_historical_data env = Some series" "ema_trend_window \<le> length series"
    "\<forall>x\<in>set series. 0 < x"
    and "h = drop (length series - 260) series"
    and "s = ln (sum_list (drop 255 (take 260 h)) / 5) - ln (sum_list (drop 250 (take 255 h)) / 5)"
  shows "calculate_trend_score env p =
     \<lparr>raw_score = Fin s,
      should_trade_long = (0 < s),
      should_trade_short = (s < 0),
      vix_level = (case vix_download env of None \<Rightarrow> 18 | Some v \<Rightarrow> if v = [] then 18 else last v),
      interpretation_label =
        (if 0.02 < s then ''Strongly Bullish'' else if 0 < s then ''Weakly Bullish''
         else if - 0.02 < s then ''Weakly Bearish'' else ''Strongly Bearish'')\<rparr>"
proof -
  have n: "260 \<le> length series" using assms(2) by (simp add: ema_trend_window_def)
  have hist: "(if length series > ema_trend_window
               then drop (length series - ema_trend_window) series else series) = h"
    using n by (simp add: ema_trend_window_def assms(4))
  have len: "length h = 250 + 10" using n by (simp add: assms(4))
  have pos: "\<forall>x\<in>set h. 0 < x"
    using assms(3) unfolding assms(4) by (meson in_set_dropD)
  have "iloc_last (rolling_sum 5 (diff1 (map np_log (rolling_mean 5 h)))) =
     Inr (Fin (ln (sum_list (drop (250 + 5) (take (250 + 10) h)) / 5)
             - ln (sum_list (drop 250 (take (250 + 5) h)) / 5)))"
    using len pos by (rule score_value)
  then have sc: "iloc_last (rolling_sum ema_window (diff1 (map np_log (rolling_mean ema_window h)))) = Inr (Fin s)"
    by (simp add: ema_window_def assms(5))
  have nlt: "\<not> length series < ema_trend_window" using assms(2) by simp
  show ?thesis
    unfolding calculate_trend_score_def assms(1) option.case if_not_P [OF nlt] hist Let_def sc
    by simp
qed

lemma sum5_nth:
  assumes "k + 5 \<le> length (h :: real list)"
  shows "sum_list (drop k (take (k + 5) h)) = h ! k + h ! (k + 1) + h ! (k + 2) + h ! (k + 3) + h ! (k + 4)"
  by (simp add: window5 [OF assms])


text \<open>
  C6: for a series of at least 260 positive prices the raw trend score is exactly 0 when
  the series is constant, is positive when the series is strictly increasing and is
  negative when it is strictly decreasing.
\<close>

theorem trend_sign:
  assumes "get_spx_historical_data env = Some series" "ema_trend_window \<le> length series"
    "\<forall>x\<in>set series. 0 < x"
  shows "((\<forall>x\<in>set series. x = c) \<longrightarrow> raw_score (calculate_trend_score env p) = Fin 0)
       \<and> (sorted_wrt (\<lambda>a b. a < b) series \<longrightarrow>
            (\<exists>s. raw_score (calculate_trend_score env p) = Fin s \<and> 0 < s))
       \<and> (sorted_wrt (\<lambda>a b. b < a) series \<longrightarrow>
            (\<exists>s. raw_score (calculate_trend_score env p) = Fin s \<and> s < 0))"
proof -
  define h where "h = drop (length series - 260) series"
  define s1 where "s1 = sum_list (drop 250 (take 255 h))"
  define s2 where "s2 = sum_list (drop 255 (take 260 h))"
  define s where "s = ln (s2 / 5) - ln (s1 / 5)"
  have n: "260 \<le> length series" using assms(2) by (simp add: ema_trend_window_def)
  have len: "length h = 260" using n by (simp add: h_def)
  have pos: "\<forall>x\<in>set h. 0 < x"
    using assms(3) unfolding h_def by (meson in_set_dropD)
  have "calculate_trend_score env p =
     \<lparr>raw_score = Fin s,
      should_trade_long = (0 < s),
      should_trade_short = (s < 0),
      vix_level = (case vix_download env of None \<Rightarrow> 18 | Some v \<Rightarrow> if v = [] then 18 else last v),
      interpretation_label =
        (if 0.02 < s then ''Strongly Bullish'' else if 0 < s then ''Weakly Bullish''
         else if - 0.02 < s then ''Weakly Bearish'' else ''Strongly Bearish'')\<rparr>"
    using assms h_def by (rule trend_score_computed) (simp add: s_def s1_def s2_def)
  then have raw: "raw_score (calculate_trend_score env p) = Fin s" by simp
  have "250 + 5 \<le> length h" using len by simp
  then have "sum_list (drop 250 (take (250 + 5) h)) =
      h ! 250 + h ! (250 + 1) + h ! (250 + 2) + h ! (250 + 3) + h ! (250 + 4)"
    by (rule sum5_nth)
  then have e1: "s1 = h ! 250 + h ! 251 + h ! 252 + h ! 253 + h ! 254"
    by (simp add: s1_def)
  have "255 + 5 \<le> length h" using len by simp
  then have "sum_list (drop 255 (take (255 + 5) h)) =
      h ! 255 + h ! (255 + 1) + h ! (255 + 2) + h ! (255 + 3) + h ! (255 + 4)"
    by (rule sum5_nth)
  then have e2: "s2 = h ! 255 + h ! 256 + h ! 257 + h ! 258 + h ! 259"
    by (simp add: s2_def)
  have nth_pos: "0 < h ! i" if "i < 260" for i
    using pos that len by simp
  have p1: "0 < s1" unfolding e1
    using nth_pos [of 250] nth_pos [of 251] nth_pos [of 252] nth_pos [of 253] nth_pos [of 254]
    by simp
  have p2: "0 < s2" unfolding e2
    using nth_pos [of 255] nth_pos [of 256] nth_pos [of 257] nth_pos [of 258] nth_pos [of 259]
    by simp
  have const: "s = 0" if "\<forall>x\<in>set series. x = c"
  proof -
    have "\<forall>x\<in>set h. x = c" using that unfolding h_def by (meson in_set_dropD)
    then have "h ! i = c" if "i < 260" for i using that len by simp
    then have "s1 = s2" unfolding e1 e2 by simp
    then show ?thesis by (simp add: s_def)
  qed
  have incr: "0 < s" if "sorted_wrt (\<lambda>a b. a < b) series"
  proof -
    have sh: "sorted_wrt (\<lambda>a b. a < b) h" using that unfolding h_def by (rule sorted_wrt_drop)
    have "h ! i < h ! j" if "i < j" "j < 260" for i j
      using sorted_wrt_nth_less [OF sh, of i j] that len by simp
    then have "h ! 250 < h ! 255" "h ! 251 < h ! 256" "h ! 252 < h ! 257"
      "h ! 253 < h ! 258" "h ! 254 < h ! 259" by simp_all
    then have "s1 < s2" unfolding e1 e2 by linarith
    then have "ln (s1 / 5) < ln (s2 / 5)" using p1 p2 by simp
    then show ?thesis by (simp add: s_def)
  qed
  have decr: "s < 0" if "sorted_wrt (\<lambda>a b. b < a) series"
  proof -
    have sh: "sorted_wrt (\<lambda>a b. b < a) h" using that unfolding h_def by (rule sorted_wrt_drop)
    have "h ! j < h ! i" if "i < j" "j < 260" for i j
      using sorted_wrt_nth_less [OF sh, of i j] that len by simp
    then have "h ! 255 < h ! 250" "h ! 256 < h ! 251" "h ! 257 < h ! 252"
      "h ! 258 < h ! 253" "h ! 259 < h ! 254" by simp_all
    then have "s2 < s1" unfolding e1 e2 by linarith
    then have "ln (s2 / 5) < ln (s1 / 5)" using p1 p2 by simp
    then show ?thesis by (simp add: s_def)
  qed
  show ?thesis using raw const incr decr by simp
qed


theorem trend_sign_witness:
  "raw_score (calculate_trend_score
      \<lparr>spy_download = Some (replicate 260 582), vix_download = None\<rparr> 5820) = Fin 0 \<and>
   (\<exists>s. raw_score (calculate_trend_score
      \<lparr>spy_download = Some (map real [1..<261]), vix_download = None\<rparr> 5820) = Fin s \<and> 0 < s) \<and>
   (\<exists>s. raw_score (calculate_trend_score
      \<lparr>spy_download = Some (rev (map real [1..<261])), vix_download = None\<rparr> 5820) = Fin s \<and> s < 0)"
proof -
  let ?c = "\<lparr>spy_download = Some (replicate 260 582), vix_download = None\<rparr>"
  let ?i = "\<lparr>spy_download = Some (map real [1..<261]), vix_download = None\<rparr>"
  let ?d = "\<lparr>spy_download = Some (rev (map real [1..<261])), vix_download = None\<rparr>"
  have c1: "get_spx_historical_data ?c = Some (replicate 260 5820)"
    by (simp add: get_spx_historical_data_def)
  have c2: "ema_trend_window \<le> length (replicate 260 (5820::real))"
    by (simp add: ema_trend_window_def)
  have c3: "\<forall>x\<in>set (replicate 260 (5820::real)). 0 < x" by simp
  have c4: "\<forall>x\<in>set (replicate 260 (5820::real)). x = 5820" by simp
  have i1: "get_spx_historical_data ?i = Some (map (\<lambda>n. real n * 10) [1..<261])"
    by (simp add: get_spx_historical_data_def)
  have i2: "ema_trend_window \<le> length (map (\<lambda>n. real n * 10) [1..<261])"
    by (simp add: ema_trend_window_def)
  have i3: "\<forall>x\<in>set (map (\<lambda>n. real n * 10) [1..<261]). 0 < x" by auto
  have i4: "sorted_wrt (\<lambda>a b. a < b) (map (\<lambda>n. real n * 10) [1..<261])"
    by (simp add: sorted_wrt_map)
  have d1: "get_spx_historical_data ?d = Some (rev (map (\<lambda>n. real n * 10) [1..<261]))"
    by (simp add: get_spx_historical_data_def rev_map)
  have d2: "ema_trend_window \<le> length (rev (map (\<lambda>n. real n * 10) [1..<261]))"
    by (simp add: ema_trend_window_def)
  have d3: "\<forall>x\<in>set (rev (map (\<lambda>n. real n * 10) [1..<261])). 0 < x" by auto
  have d4: "sorted_wrt (\<lambda>a b. b < a) (rev (map (\<lambda>n. real n * 10) [1..<261]))"
    by (simp add: sorted_wrt_rev sorted_wrt_map)
  show ?thesis
    using trend_sign [OF c1 c2 c3, of 5820 5820] c4
      trend_sign [OF i1 i2 i3, of 0 5820] i4
      trend_sign [OF d1 d2 d3, of 0 5820] d4
    by blast
qed

text \<open>
  C7: when the price series is absent or has fewer than 260 points, the scorer returns the
  score 0, neither trade direction, the volatility level 18 and the label
  \<^verbatim>\<open>'No trend data available'\<close>, which no computed result carries.
\<close>

theorem insufficient_data:
  assumes "get_spx_historical_data env = None \<or>
     (\<exists>series. get_spx_historical_data env = Some series \<and> length series < 260)"
  shows "calculate_trend_score env p =
     \<lparr>raw_score = Fin 0, should_trade_long = False, should_trade_short = False,
      vix_level = 18, interpretation_label = ''No trend data available''\<rparr>"
  using assms
  by (auto simp add: calculate_trend_score_def default_result_def ema_trend_window_def)

theorem insufficient_data_witness:
  "get_spx_historical_data \<lparr>spy_download = None, vix_download = Some [25]\<rparr> = None \<and>
   calculate_trend_score \<lparr>spy_download = None, vix_download = Some [25]\<rparr> 5820 =
     \<lparr>raw_score = Fin 0, should_trade_long = False, should_trade_short = False,
      vix_level = 18, interpretation_label = ''No trend data available''\<rparr> \<and>
   get_spx_historical_data \<lparr>spy_download = Some [581, 582], vix_download = Some [25]\<rparr> =
     Some [5810, 5820] \<and>
   length [5810, 5820 :: real] < 260 \<and>
   calculate_trend_score \<lparr>spy_download = Some [581, 582], vix_download = Some [25]\<rparr> 5820 =
     \<lparr>raw_score = Fin 0, should_trade_long = False, should_trade_short = False,
      vix_level = 18, interpretation_label = ''No trend data available''\<rparr>"
proof -
  have a: "get_spx_historical_data \<lparr>spy_download = None, vix_download = Some [25]\<rparr> = None"
    by (simp add: get_spx_historical_data_def)
  have b: "get_spx_historical_data \<lparr>spy_download = Some [581, 582], vix_download = Some [25]\<rparr> =
     Some [5810, 5820]"
    by (simp add: get_spx_historical_data_def)
  have c: "length [5810, 5820 :: real] < 260" by simp
  show ?thesis
    using a b c
      insufficient_data [of "\<lparr>spy_download = None, vix_download = Some [25]\<rparr>" 5820]
      insufficient_data [of "\<lparr>spy_download = Some [581, 582], vix_download = Some [25]\<rparr>" 5820]
    by simp
qed

section \<open>Effects of the trend scorer\<close>

text \<open>
  The fetch returns what \<^const>\<open>get_spx_historical_data\<close> returns on the answers of the
  provider, prints one line when the download raises and leaves the answers as they are.
  With 260 points or more the last rolling sum exists, so the second handler never prints.
\<close>

lemma rolling_sum_nonempty:
  assumes "ys \<noteq> []"
  shows "\<exists>t. iloc_last (rolling_sum w ys) = Inr t"
  using assms by (simp add: iloc_last_def rolling_sum_def)

lemma get_spx_historical_data_io_value:
  "fst (get_spx_historical_data_io w) = get_spx_historical_data (answers w)"
  by (simp add: get_spx_historical_data_io_def get_spx_historical_data_def split: option.split)

lemma get_spx_historical_data_io_world:
  "snd (get_spx_historical_data_io w) =
     (case spy_download (answers w) of
        None \<Rightarrow> w\<lparr>stdout := stdout w @ [''Error fetching historical data: '' @ spy_error w]\<rparr>
      | Some closes \<Rightarrow> w)"
  by (simp add: get_spx_historical_data_io_def print_line_def split: option.split)

lemma print_line_answers: "answers (print_line s w) = answers w"
  by (simp add: print_line_def)

lemma get_spx_historical_data_io_answers:
  "answers (snd (get_spx_historical_data_io w)) = answers w"
  by (simp add: get_spx_historical_data_io_world split: option.split)

lemma score_nonempty:
  assumes "\<not> length hist_data < ema_trend_window"
  shows "\<exists>t. iloc_last (rolling_sum ema_window (diff1 (map np_log (rolling_mean ema_window
           (if length hist_data > ema_trend_window
            then drop (length hist_data - ema_trend_window) hist_data
            else hist_data))))) = Inr t"
proof (rule rolling_sum_nonempty)
  have "0 < length (if length hist_data > ema_trend_window
            then drop (length hist_data - ema_trend_window) hist_data
            else hist_data)"
    using assms by (auto simp add: ema_trend_window_def)
  then show "diff1 (map np_log (rolling_mean ema_window
           (if length hist_data > ema_trend_window
            then drop (length hist_data - ema_trend_window) hist_data
            else hist_data))) \<noteq> []"
    by (simp only: length_greater_0_conv [symmetric] diff1_length length_map rolling_mean_length)
qed

text \<open>
  C8 (as amended): the scorer is not pure. The result it returns is the one that
  \<^const>\<open>calculate_trend_score\<close> computes from the answers of the provider: it depends
  on nothing else in the world and not on the price argument, which is ignored. The world
  after the call is the world before it, with the line
  \<^verbatim>\<open>Error fetching historical data: \<close> and the text of the exception appended to
  the standard output when the SPY download has raised, and with nothing appended
  otherwise.
\<close>

theorem scorer_value_and_output:
  "fst (calculate_trend_score_io w p) = calculate_trend_score (answers w) q \<and>
   snd (calculate_trend_score_io w p) =
     (case spy_download (answers w) of
        None \<Rightarrow> w\<lparr>stdout := stdout w @ [''Error fetching historical data: '' @ spy_error w]\<rparr>
      | Some closes \<Rightarrow> w)"
proof -
  obtain hd_opt w1 where g: "get_spx_historical_data_io w = (hd_opt, w1)"
    by (cases "get_spx_historical_data_io w")
  have v: "get_spx_historical_data (answers w) = hd_opt"
    using get_spx_historical_data_io_value [of w] g by simp
  have a: "answers w1 = answers w"
    using get_spx_historical_data_io_answers [of w] g by simp
  have w1: "w1 = (case spy_download (answers w) of
        None \<Rightarrow> w\<lparr>stdout := stdout w @ [''Error fetching historical data: '' @ spy_error w]\<rparr>
      | Some closes \<Rightarrow> w)"
    using get_spx_historical_data_io_world [of w] g by simp
  show ?thesis
  proof (cases hd_opt)
    case None
    then show ?thesis
      using g v w1 by (simp add: calculate_trend_score_io_def calculate_trend_score_def)
  next
    case (Some hist_data)
    show ?thesis
    proof (cases "length hist_data < ema_trend_window")
      case True
      then show ?thesis
        using g v w1 Some by (simp add: calculate_trend_score_io_def calculate_trend_score_def)
    next
      case False
      from score_nonempty [OF False] obtain t where
        t: "iloc_last (rolling_sum ema_window (diff1 (map np_log (rolling_mean ema_window
           (if length hist_data > ema_trend_window
            then drop (length hist_data - ema_trend_window) hist_data
            else hist_data))))) = Inr t"
        by blast
      show ?thesis
        unfolding calculate_trend_score_io_def calculate_trend_score_def g v Some Let_def
        using False t a w1 by simp
    qed
  qed
qed

text \<open>
  Two calls with the same argument and an empty standard output: where the download raises,
  the call leaves a line on the standard output; where it returns 206 closing prices, the
  call leaves none. The call writes to the world, and what it writes depends on the
  provider.
\<close>

theorem scorer_prints_counterexample:
  "stdout (snd (calculate_trend_score_io
      \<lparr>answers = \<lparr>spy_download = None, vix_download = Some [18.5]\<rparr>,
       spy_error = ''No data found'', stdout = []\<rparr> 5820)) =
     [''Error fetching historical data: No data found''] \<and>
   stdout (snd (calculate_trend_score_io
      \<lparr>answers = \<lparr>spy_download = Some (replicate 206 582), vix_download = Some [18.5]\<rparr>,
       spy_error = ''No data found'', stdout = []\<rparr> 5820)) = []"
  by (simp add: calculate_trend_score_io_def get_spx_historical_data_io_def print_line_def
      ema_trend_window_def)

end
